theory Spec2Isabelle
  imports Complex_Main "HOL-Library.AList" "HOL-Library.Sublist"
begin

section \<open>JavaScript values\<close>

text \<open>
  The resolvers and the page are untyped JavaScript: a value such as \<open>context.userId\<close> or the
  argument \<open>first\<close> may be \<open>undefined\<close>, \<open>null\<close> or a value of any type, and the code's tests on
  it (\<open>!x\<close>, \<open>x < 1\<close>, \<open>xs.includes(x)\<close>) are defined on all of them.

  Numbers are doubles: \<open>NaN\<close>, the two infinities, or a finite value, held as the rational
  number it denotes. The two zeros are one value: truthiness, \<open>includes\<close> and the comparisons
  do not tell them apart, and a product of 30 with a number other than zero is not zero.
  An operation whose exact result is not a double rounds it to the nearest one
  (\<open>round_double\<close> below).

  Strings: a \<open>char\<close> stands for a UTF-16 code unit below 256; strings with other code units
  are outside the model.
\<close>

datatype jsnum = NaN | Num rat | PosInf | NegInf

text \<open>
  An object is known by its reference, a natural number; a \<open>Date\<close> object carries its time
  value (milliseconds, or \<open>NaN\<close> for an invalid date) beside its reference.
\<close>

datatype jsval =
    Undefined
  | Null
  | Bool bool
  | Number jsnum
  | Str string
  | DateObj nat jsnum
  | Obj nat

text \<open>\<open>ToBoolean\<close>: the falsy values are \<open>undefined\<close>, \<open>null\<close>, \<open>false\<close>, \<open>0\<close>, \<open>NaN\<close> and \<open>''\<close>.\<close>

fun truthy :: "jsval \<Rightarrow> bool" where
  "truthy Undefined = False"
| "truthy Null = False"
| "truthy (Bool b) = b"
| "truthy (Number n) = (n \<noteq> NaN \<and> n \<noteq> Num 0)"
| "truthy (Str s) = (s \<noteq> [])"
| "truthy (DateObj r t) = True"
| "truthy (Obj r) = True"

text \<open>
  \<open>SameValueZero\<close>, the comparison of \<open>Array.prototype.includes\<close>: primitives by value
  (\<open>NaN\<close> equals \<open>NaN\<close>), objects by reference.
\<close>

fun SameValueZero :: "jsval \<Rightarrow> jsval \<Rightarrow> bool" where
  "SameValueZero (DateObj r t) (DateObj r' t') = (r = r')"
| "SameValueZero x y = (x = y)"

text \<open>\<open>xs.includes(v)\<close>: the first element that is the same value as \<open>v\<close> ends the scan.\<close>

fun Array_includes :: "jsval list \<Rightarrow> jsval \<Rightarrow> bool" where
  "Array_includes [] v = False"
| "Array_includes (x # xs) v = (if SameValueZero x v then True else Array_includes xs v)"

text \<open>
  A plain object: its own properties in insertion order. Reading a property that is not
  there gives \<open>undefined\<close>.
\<close>

type_synonym jsobj = "(string \<times> jsval) list"

definition get :: "jsobj \<Rightarrow> string \<Rightarrow> jsval" where
  "get obj k = (case map_of obj k of None \<Rightarrow> Undefined | Some v \<Rightarrow> v)"

fun isString :: "jsval \<Rightarrow> bool" where
  "isString (Str s) = True"
| "isString v = False"

fun isDate :: "jsval \<Rightarrow> bool" where
  "isDate (DateObj r t) = True"
| "isDate v = False"


section \<open>The request context and the services\<close>

text \<open>
  Errors are values: \<open>throw new Error(msg)\<close> is \<open>Inl (Error msg)\<close>.
\<close>

datatype jserror = Error string

text \<open>
  The context of a request holds \<open>userId\<close> and four service objects (\<open>CommentService\<close>,
  \<open>FeedSingleton\<close>, \<open>NewsItemService\<close>, \<open>UserService\<close>) whose code is not in these files. A
  call of a service method is a value of \<open>call\<close>, named by the object and the method, and
  the services are one parameter of the context: a function from the call and the data
  store to the call's outcome and the new store.
\<close>

datatype call =
    FeedSingleton_getForType jsval jsval jsval
  | UserService_getUser jsval
  | NewsItemService_upvoteNewsItem jsval jsval
  | NewsItemService_hideNewsItem jsval jsval
  | NewsItemService_submitNewsItem jsobj

record 'st request_context =
  userId :: jsval
  service :: "call \<Rightarrow> 'st \<Rightarrow> (jserror + jsval) \<times> 'st"

text \<open>
  What a resolver can change: the data store behind the services and the debug log. \<open>calls\<close>
  records the service methods invoked so far, in order.
\<close>

record 'st world =
  calls :: "call list"
  debug_log :: "jsval list list"
  store :: 'st

definition invoke ::
  "'st request_context \<Rightarrow> call \<Rightarrow> 'st world \<Rightarrow> (jserror + jsval) \<times> 'st world" where
  "invoke ctx c w =
     (case service ctx c (store w) of
        (r, s') \<Rightarrow> (r, w\<lparr>calls := calls w @ [c], store := s'\<rparr>))"

definition logger :: "jsval list \<Rightarrow> 'st world \<Rightarrow> 'st world" where
  "logger line w = w\<lparr>debug_log := debug_log w @ [line]\<rparr>"


section \<open>Type resolvers: \<open>upvoted\<close> and \<open>hidden\<close>\<close>

text \<open>
  Modelled from the spec: the classes \<open>NewsItemModel\<close> and \<open>CommentModel\<close> of \<open>./models\<close> are
  not among the source files. The records have the fields of the spec's data model that
  the resolvers read; \<open>upvotes\<close> of a comment is read by \<open>Comment.upvoted\<close>.
\<close>

record NewsItemModel =
  id :: jsval
  submitterId :: jsval
  comments :: "jsval list"
  hides :: "jsval list"
  upvotes :: "jsval list"

record CommentModel =
  id :: jsval
  submitterId :: jsval
  comments :: "jsval list"
  upvotes :: "jsval list"

definition Comment_upvoted :: "CommentModel \<Rightarrow> 'st request_context \<Rightarrow> bool" where
  "Comment_upvoted comment ctx = Array_includes (CommentModel.upvotes comment) (userId ctx)"

definition NewsItem_hidden :: "NewsItemModel \<Rightarrow> 'st request_context \<Rightarrow> bool" where
  "NewsItem_hidden newsItem ctx = Array_includes (NewsItemModel.hides newsItem) (userId ctx)"

definition NewsItem_upvoted :: "NewsItemModel \<Rightarrow> 'st request_context \<Rightarrow> bool" where
  "NewsItem_upvoted newsItem ctx = Array_includes (NewsItemModel.upvotes newsItem) (userId ctx)"


section \<open>Numbers: rounding, conversion, comparison, multiplication\<close>

text \<open>
  Rounding to the nearest double, ties to the even significand (IEEE 754 binary64: 53
  bits, exponents from \<open>-1022\<close> to \<open>1023\<close>). \<open>log2floor n\<close> is the position of the leading
  bit of \<open>n\<close>, and \<open>binary_exponent q\<close> the \<open>e\<close> with \<open>2 ^ e \<le> q < 2 ^ (e + 1)\<close> for a
  positive \<open>q\<close>. The doubles of that binade, and below \<open>2 ^ -1022\<close> the subnormal ones, are
  the multiples of \<open>ulp\<close>; a result that reaches \<open>2 ^ 1024\<close> is infinite.
\<close>

fun log2floor :: "nat \<Rightarrow> nat" where
  "log2floor n = (if n < 2 then 0 else Suc (log2floor (n div 2)))"

declare log2floor.simps [simp del]

definition pow2 :: "int \<Rightarrow> rat" where
  "pow2 e = (if 0 \<le> e then 2 ^ nat e else 1 / 2 ^ nat (- e))"

definition binary_exponent :: "rat \<Rightarrow> int" where
  "binary_exponent q =
     (if 1 \<le> q then int (log2floor (nat \<lfloor>q\<rfloor>))
      else (let k = int (log2floor (nat \<lfloor>1 / q\<rfloor>))
            in if q * pow2 k = 1 then - k else - k - 1))"

definition round_half_even :: "rat \<Rightarrow> int" where
  "round_half_even q =
     (let f = \<lfloor>q\<rfloor>; r = q - of_int f
      in if r < 1 / 2 then f else if 1 / 2 < r then f + 1 else if even f then f else f + 1)"

definition round_pos :: "rat \<Rightarrow> jsnum" where
  "round_pos q =
     (let ulp = pow2 (max (binary_exponent q) (- 1022) - 52);
          r = of_int (round_half_even (q / ulp)) * ulp
      in if pow2 1024 \<le> r then PosInf else Num r)"

fun num_neg :: "jsnum \<Rightarrow> jsnum" where
  "num_neg NaN = NaN"
| "num_neg (Num q) = Num (- q)"
| "num_neg PosInf = NegInf"
| "num_neg NegInf = PosInf"

definition round_double :: "rat \<Rightarrow> jsnum" where
  "round_double q =
     (if q = 0 then Num 0 else if 0 < q then round_pos q else num_neg (round_pos (- q)))"

text \<open>
  \<open>ToNumber\<close>: \<open>undefined\<close> is \<open>NaN\<close>, \<open>null\<close> is \<open>0\<close>, a \<open>Date\<close> is its time value, a plain
  object is \<open>NaN\<close>. On a string it is the runtime's \<open>StringToNumber\<close>, whose grammar has
  decimal literals with fraction and exponent, hexadecimal literals and \<open>Infinity\<close>; it is
  the parameter \<open>s2n\<close>, and what follows holds for every such conversion.
\<close>

fun ToNumber :: "(string \<Rightarrow> jsnum) \<Rightarrow> jsval \<Rightarrow> jsnum" where
  "ToNumber s2n Undefined = NaN"
| "ToNumber s2n Null = Num 0"
| "ToNumber s2n (Bool b) = (if b then Num 1 else Num 0)"
| "ToNumber s2n (Number n) = n"
| "ToNumber s2n (Str s) = s2n s"
| "ToNumber s2n (DateObj r t) = t"
| "ToNumber s2n (Obj r) = NaN"

text \<open>
  A comparison of numbers is false as soon as one side is \<open>NaN\<close>; the infinities lie below
  and above every finite number.
\<close>

fun num_lt :: "jsnum \<Rightarrow> jsnum \<Rightarrow> bool" where
  "num_lt NaN b = False"
| "num_lt a NaN = False"
| "num_lt (Num x) (Num y) = (x < y)"
| "num_lt NegInf b = (b \<noteq> NegInf)"
| "num_lt a PosInf = (a \<noteq> PosInf)"
| "num_lt a b = False"

text \<open>
  The product of two doubles is their exact product, rounded. With an infinite factor it
  is infinite with the product's sign, and \<open>NaN\<close> when the other factor is zero.
\<close>

fun num_sign :: "jsnum \<Rightarrow> int" where
  "num_sign NaN = 0"
| "num_sign (Num q) = (if q = 0 then 0 else if 0 < q then 1 else - 1)"
| "num_sign PosInf = 1"
| "num_sign NegInf = - 1"

fun num_times :: "jsnum \<Rightarrow> jsnum \<Rightarrow> jsnum" where
  "num_times NaN b = NaN"
| "num_times a NaN = NaN"
| "num_times (Num x) (Num y) = round_double (x * y)"
| "num_times a b =
     (if num_sign a * num_sign b = 0 then NaN
      else if 0 < num_sign a * num_sign b then PosInf else NegInf)"

text \<open>
  \<open>a < b\<close> and \<open>a > b\<close> where one operand is a number (at every use in this code one operand
  is a numeric literal, so the comparison of two strings does not arise), and \<open>a * b\<close>.
\<close>

definition js_lt :: "(string \<Rightarrow> jsnum) \<Rightarrow> jsval \<Rightarrow> jsval \<Rightarrow> bool" where
  "js_lt s2n a b = num_lt (ToNumber s2n a) (ToNumber s2n b)"

definition js_gt :: "(string \<Rightarrow> jsnum) \<Rightarrow> jsval \<Rightarrow> jsval \<Rightarrow> bool" where
  "js_gt s2n a b = num_lt (ToNumber s2n b) (ToNumber s2n a)"

definition js_times :: "(string \<Rightarrow> jsnum) \<Rightarrow> jsval \<Rightarrow> jsval \<Rightarrow> jsval" where
  "js_times s2n a b = Number (num_times (ToNumber s2n a) (ToNumber s2n b))"

text \<open>\<open>a || b\<close> is \<open>a\<close> when \<open>a\<close> is truthy and \<open>b\<close> otherwise.\<close>

definition js_or :: "jsval \<Rightarrow> jsval \<Rightarrow> jsval" where
  "js_or a b = (if truthy a then a else b)"


section \<open>Query resolvers\<close>

text \<open>
  \<open>feed(root, { type, first, skip }, context)\<close>: the limit is \<open>first\<close> unless \<open>first < 1\<close> or
  \<open>first > 30\<close>, and the call of \<open>FeedSingleton.getForType\<close> is the resolver's result.
\<close>

definition feed_limit :: "(string \<Rightarrow> jsnum) \<Rightarrow> jsval \<Rightarrow> jsval" where
  "feed_limit s2n first =
     (if js_lt s2n first (Number (Num 1)) \<or> js_gt s2n first (Number (Num 30))
      then Number (Num 30) else first)"

definition Query_feed ::
  "(string \<Rightarrow> jsnum) \<Rightarrow> jsobj \<Rightarrow> 'st request_context \<Rightarrow> 'st world
     \<Rightarrow> (jserror + jsval) \<times> 'st world" where
  "Query_feed s2n args ctx w =
     (let type = get args ''type''; first = get args ''first''; skip = get args ''skip'';
          limit = feed_limit s2n first
      in invoke ctx (FeedSingleton_getForType type limit skip) w)"

text \<open>
  \<open>me\<close>: logs the user id, then \<open>context.userId && context.UserService.getUser(context.userId)\<close>:
  a falsy \<open>userId\<close> is itself the result, and the right operand is not evaluated.
\<close>

definition Query_me ::
  "'st request_context \<Rightarrow> 'st world \<Rightarrow> (jserror + jsval) \<times> 'st world" where
  "Query_me ctx w =
     (let w' = logger [Str ''Me: userId:'', userId ctx] w
      in if truthy (userId ctx) then invoke ctx (UserService_getUser (userId ctx)) w'
         else (Inr (userId ctx), w'))"


section \<open>Mutation resolvers\<close>

definition Mutation_upvoteNewsItem ::
  "jsobj \<Rightarrow> 'st request_context \<Rightarrow> 'st world \<Rightarrow> (jserror + jsval) \<times> 'st world" where
  "Mutation_upvoteNewsItem args ctx w =
     (if \<not> truthy (userId ctx) then (Inl (Error ''Must be logged in to vote.''), w)
      else invoke ctx (NewsItemService_upvoteNewsItem (get args ''id'') (userId ctx)) w)"

definition Mutation_hideNewsItem ::
  "jsobj \<Rightarrow> 'st request_context \<Rightarrow> 'st world \<Rightarrow> (jserror + jsval) \<times> 'st world" where
  "Mutation_hideNewsItem args ctx w =
     (if \<not> truthy (userId ctx) then (Inl (Error ''Must be logged in to hide post.''), w)
      else invoke ctx (NewsItemService_hideNewsItem (get args ''id'') (userId ctx)) w)"

text \<open>
  \<open>{ ...newsItem, submitterId: context.userId }\<close>: a copy of the arguments in which
  \<open>submitterId\<close> is replaced where it stands, or added at the end.
\<close>

definition Mutation_submitNewsItem ::
  "jsobj \<Rightarrow> 'st request_context \<Rightarrow> 'st world \<Rightarrow> (jserror + jsval) \<times> 'st world" where
  "Mutation_submitNewsItem newsItem ctx w =
     (if \<not> truthy (userId ctx)
      then (Inl (Error ''Must be logged in to submit a news item.''), w)
      else invoke ctx
             (NewsItemService_submitNewsItem
                (AList.update ''submitterId'' (userId ctx) newsItem)) w)"

text \<open>The three mutations by name, each with its resolver.\<close>

datatype mutation = upvoteNewsItem | hideNewsItem | submitNewsItem

fun Mutation ::
  "mutation \<Rightarrow> jsobj \<Rightarrow> 'st request_context \<Rightarrow> 'st world
     \<Rightarrow> (jserror + jsval) \<times> 'st world" where
  "Mutation upvoteNewsItem = Mutation_upvoteNewsItem"
| "Mutation hideNewsItem = Mutation_hideNewsItem"
| "Mutation submitNewsItem = Mutation_submitNewsItem"

section \<open>The \<open>Date\<close> scalar\<close>

text \<open>\<open>serialize\<close>: \<open>value instanceof Date ? value.valueOf() : value\<close>.\<close>

fun Date_serialize :: "jsval \<Rightarrow> jsval" where
  "Date_serialize (DateObj r t) = Number t"
| "Date_serialize v = v"

text \<open>
  \<open>parseInt(string, 10)\<close>: leading white space is dropped, one sign is read, and the longest
  run of decimal digits that follows is the number, as a double; with no digit the result
  is \<open>NaN\<close>. Whatever follows the digits is ignored. The white space among the code units
  below 256 is tab, line feed, vertical tab, form feed, carriage return, space and the
  no-break space U+00A0. (Past the 20th significant digit ECMAScript lets an
  implementation approximate; the model rounds the exact value.)
\<close>

definition StrWhiteSpaceChar :: "char \<Rightarrow> bool" where
  "StrWhiteSpaceChar c = (of_char c \<in> {9, 10, 11, 12, 13, 32, 160 :: nat})"

definition isDigit :: "char \<Rightarrow> bool" where
  "isDigit c = (48 \<le> (of_char c :: nat) \<and> (of_char c :: nat) \<le> 57)"

definition digit_value :: "char \<Rightarrow> nat" where
  "digit_value c = of_char c - 48"

definition digits_value :: "string \<Rightarrow> nat" where
  "digits_value Z = foldl (\<lambda>a c. 10 * a + digit_value c) 0 Z"

definition parseInt10 :: "string \<Rightarrow> jsnum" where
  "parseInt10 string =
     (let S = dropWhile StrWhiteSpaceChar string;
          sign = (if S \<noteq> [] \<and> hd S = CHR ''-'' then - 1 else 1);
          S' = (if S \<noteq> [] \<and> (hd S = CHR ''+'' \<or> hd S = CHR ''-'') then tl S else S);
          Z = takeWhile isDigit S'
      in if Z = [] then NaN else round_double (of_int (sign * int (digits_value Z))))"

text \<open>
  The kinds of a value literal in a GraphQL document (\<open>Kind\<close> of \<open>graphql/language\<close>), and
  the two fields of a literal's node that \<open>parseLiteral\<close> reads.
\<close>

datatype Kind =
    Kind_VARIABLE | Kind_INT | Kind_FLOAT | Kind_STRING | Kind_BOOLEAN | Kind_NULL
  | Kind_ENUM | Kind_LIST | Kind_OBJECT

record ast =
  kind :: Kind
  ast_value :: string

definition Date_parseLiteral :: "ast \<Rightarrow> jsval" where
  "Date_parseLiteral a =
     (if kind a = Kind_INT then Number (parseInt10 (ast_value a)) else Null)"

text \<open>
  The text of an \<open>INT\<close> literal is the decimal numeral of an integer (GraphQL's \<open>IntValue\<close>):
  a minus sign for a negative one, then its digits without leading zeros. \<open>IntValue n\<close> is
  the text that denotes \<open>n\<close>, against which \<open>parseInt\<close> is compared.
\<close>

definition digit_char :: "nat \<Rightarrow> char" where
  "digit_char d = char_of (48 + d)"

fun digits_of :: "nat \<Rightarrow> string" where
  "digits_of n = (if n < 10 then [digit_char n] else digits_of (n div 10) @ [digit_char (n mod 10)])"

declare digits_of.simps [simp del]

definition IntValue :: "int \<Rightarrow> string" where
  "IntValue n = (if n < 0 then CHR ''-'' # digits_of (nat (- n)) else digits_of (nat n))"


section \<open>The schema's \<open>FeedType\<close> and the ShowNew page\<close>

text \<open>The values of \<open>enum FeedType\<close> in \<open>typeDefs\<close>; GraphQL names are case-sensitive.\<close>

definition FeedType :: "string list" where
  "FeedType = [''top'', ''new'', ''best'', ''show'', ''ask'', ''job'']"

definition POSTS_PER_PAGE :: jsval where
  "POSTS_PER_PAGE = Number (Num 30)"

text \<open>
  \<open>ShowHNNewsFeed\<close> binds the query \<open>topNewsItems($type: FeedType!, $first: Int!, $skip: Int!)\<close>;
  its \<open>options\<close> function takes \<open>first\<close> and \<open>skip\<close> from the component's \<open>options\<close> property
  and gives the query's variables.
\<close>

definition ShowHNNewsFeed_variables :: "jsobj \<Rightarrow> jsobj" where
  "ShowHNNewsFeed_variables options =
     (let first = get options ''first''; skip = get options ''skip''
      in [(''type'', Str ''SHOW''), (''first'', first), (''skip'', skip)])"

text \<open>
  \<open>props.url\<close> of the page: the path and the parsed query string, an object of string
  parameters, or no object at all. The \<open>notice\<close> markup handed to the feed component is
  presentation and is left out of \<open>options\<close>.
\<close>

record url =
  pathname :: string
  query :: "jsobj option"

text \<open>\<open>(props.url.query && +props.url.query.p) || 0\<close>\<close>

definition pageNumber :: "(string \<Rightarrow> jsnum) \<Rightarrow> url \<Rightarrow> jsval" where
  "pageNumber s2n u =
     js_or (case query u of
              None \<Rightarrow> Undefined
            | Some q \<Rightarrow> Number (ToNumber s2n (get q ''p'')))
           (Number (Num 0))"

definition ShowNewPage_options :: "(string \<Rightarrow> jsnum) \<Rightarrow> url \<Rightarrow> jsobj" where
  "ShowNewPage_options s2n u =
     [(''currentUrl'', Str (pathname u)),
      (''first'', POSTS_PER_PAGE),
      (''skip'', js_times s2n POSTS_PER_PAGE (pageNumber s2n u))]"

text \<open>The variables of the feed query that rendering the page sends.\<close>

definition ShowNewPage :: "(string \<Rightarrow> jsnum) \<Rightarrow> url \<Rightarrow> jsobj" where
  "ShowNewPage s2n u = ShowHNNewsFeed_variables (ShowNewPage_options s2n u)"

text \<open>
  The page number as the specification words it, to compare \<open>pageNumber\<close> with: the number
  the URL's parameter \<open>p\<close> converts to, and \<open>0\<close> when there is no query, no parameter \<open>p\<close>,
  or the parameter is not a number.
\<close>

definition url_page :: "(string \<Rightarrow> jsnum) \<Rightarrow> url \<Rightarrow> jsnum" where
  "url_page s2n u =
     (case query u of
        None \<Rightarrow> Num 0
      | Some q \<Rightarrow>
          (case map_of q ''p'' of
             None \<Rightarrow> Num 0
           | Some v \<Rightarrow> (if ToNumber s2n v = NaN then Num 0 else ToNumber s2n v)))"


section \<open>Example data\<close>

text \<open>
  A service for running the resolvers on examples: it answers every call with the object
  of reference 7 and counts the calls in its store.
\<close>

definition counting_service :: "call \<Rightarrow> nat \<Rightarrow> (jserror + jsval) \<times> nat" where
  "counting_service c n = (Inr (Obj 7), Suc n)"

definition world0 :: "nat world" where
  "world0 = \<lparr>calls = [], debug_log = [], store = 0\<rparr>"

text \<open>Two requests: nobody logged in, and user \<open>alice\<close>.\<close>

definition anonymous :: "nat request_context" where
  "anonymous = \<lparr>userId = Undefined, service = counting_service\<rparr>"

definition alice :: "nat request_context" where
  "alice = \<lparr>userId = Str ''alice'', service = counting_service\<rparr>"

definition story :: NewsItemModel where
  "story = \<lparr>NewsItemModel.id = Number (Num 1), NewsItemModel.submitterId = Str ''bob'',
             NewsItemModel.comments = [Number (Num 2)], NewsItemModel.hides = [Str ''carol''],
             NewsItemModel.upvotes = [Str ''bob'', Str ''alice'']\<rparr>"

definition reply :: CommentModel where
  "reply = \<lparr>CommentModel.id = Number (Num 2), CommentModel.submitterId = Str ''alice'',
             CommentModel.comments = [], CommentModel.upvotes = [Str ''bob'']\<rparr>"

text \<open>
  What the runtime's conversion gives on the page parameters the examples use; the other
  strings do not occur in them.
\<close>

definition StringToNumber_sample :: "string \<Rightarrow> jsnum" where
  "StringToNumber_sample s =
     (if s = ''2'' then Num 2
      else if s = ''7000000000000003'' then Num 7000000000000003
      else if s = ''1.5'' then Num (3 / 2)
      else if s = ''Infinity'' then PosInf
      else NaN)"

definition page2 :: url where
  "page2 = \<lparr>pathname = ''/shownew'', query = Some [(''p'', Str ''2'')]\<rparr>"


section \<open>Properties of the JavaScript operations\<close>

lemma SameValueZero_eq: "\<not> isDate y \<Longrightarrow> SameValueZero x y = (x = y)"
  by (cases x; cases y) simp_all

lemma includes_SameValueZero: "Array_includes xs v = (\<exists>x\<in>set xs. SameValueZero x v)"
  by (induction xs) simp_all

lemma includes_member: "\<not> isDate v \<Longrightarrow> Array_includes xs v = (v \<in> set xs)"
  by (auto simp: includes_SameValueZero SameValueZero_eq)

lemma includes_strings_nullish:
  "\<forall>x\<in>set xs. isString x \<Longrightarrow> v = Undefined \<or> v = Null \<Longrightarrow> \<not> Array_includes xs v"
  by (induction xs) auto

text \<open>A truthy value is neither \<open>undefined\<close> nor \<open>null\<close>; a falsy value is never an object.\<close>

lemma truthy_not_nullish: "truthy v \<Longrightarrow> v \<noteq> Undefined \<and> v \<noteq> Null"
  by (cases v) simp_all

lemma falsy_not_object: "\<not> truthy v \<Longrightarrow> v \<noteq> Obj r \<and> v \<noteq> DateObj r t"
  by (cases v) simp_all

text \<open>A service call adds itself to the record of calls and leaves the debug log alone.\<close>

lemma calls_invoke: "calls (snd (invoke ctx c w)) = calls w @ [c]"
  by (simp add: invoke_def split: prod.splits)

lemma debug_log_invoke: "debug_log (snd (invoke ctx c w)) = debug_log w"
  by (simp add: invoke_def split: prod.splits)


section \<open>Rounding is exact on the safe integers\<close>

lemma log2floor_bounds: "0 < n \<Longrightarrow> 2 ^ log2floor n \<le> n \<and> n < 2 ^ Suc (log2floor n)"
proof (induction n rule: log2floor.induct)
  case (1 n)
  show ?case
  proof (cases "n < 2")
    case True
    with "1.prems" show ?thesis
      by (simp add: log2floor.simps [of n])
  next
    case False
    then have "0 < n div 2"
      by simp
    with "1.IH" False
    have ih: "2 ^ log2floor (n div 2) \<le> n div 2 \<and> n div 2 < 2 ^ Suc (log2floor (n div 2))"
      by simp
    from False have e: "log2floor n = Suc (log2floor (n div 2))"
      by (simp add: log2floor.simps [of n])
    from ih show ?thesis
      unfolding e by auto
  qed
qed

lemma log2floor_less: "0 < n \<Longrightarrow> n < 2 ^ k \<Longrightarrow> log2floor n < k"
proof -
  assume n: "0 < n" and k: "n < 2 ^ k"
  from log2floor_bounds [OF n] k have "(2::nat) ^ log2floor n < 2 ^ k"
    by linarith
  then show ?thesis
    by simp
qed

lemma round_half_even_of_int: "round_half_even (of_int j) = j"
  by (simp add: round_half_even_def)

lemma pow2_nonpos: "pow2 (- int k) = 1 / 2 ^ k"
  by (simp add: pow2_def)

text \<open>
  An integer below \<open>2 ^ 53\<close> has its leading bit below position 53, so it is a multiple of
  the \<open>ulp\<close> of its binade and rounding leaves it as it is.
\<close>

lemma round_pos_exact:
  assumes "0 < n" and "n < 2 ^ 53"
  shows "round_pos (of_int n) = Num (of_int n)"
proof -
  define e where "e = log2floor (nat n)"
  have m: "0 < nat n" "nat n < 2 ^ 53"
    using assms by (simp_all add: nat_less_iff)
  have e53: "e < 53"
    unfolding e_def using log2floor_less [OF m] .
  define k where "k = 52 - e"
  have ek: "int e - 52 = - int k"
    using e53 by (simp add: k_def)
  have q1: "(1::rat) \<le> of_int n"
    using assms(1) by simp
  have be: "binary_exponent (of_int n) = int e"
    using q1 by (simp add: binary_exponent_def e_def)
  have ulp: "pow2 (max (binary_exponent (of_int n)) (- 1022) - 52) = 1 / 2 ^ k"
    unfolding be using ek pow2_nonpos [of k] by simp
  have scaled: "(of_int n :: rat) / (1 / 2 ^ k) = of_int (n * 2 ^ k)"
    by simp
  have unscaled: "(of_int (n * 2 ^ k) :: rat) * (1 / 2 ^ k) = of_int n"
    by simp
  have "(of_int n :: rat) < 2 ^ 53"
    using assms(2) by (metis of_int_less_iff of_int_numeral of_int_power)
  also have "(2::rat) ^ 53 \<le> 2 ^ 1024"
    by (rule power_increasing) simp_all
  finally have small: "\<not> pow2 1024 \<le> (of_int n :: rat)"
    by (simp add: pow2_def)
  show ?thesis
    unfolding round_pos_def Let_def ulp scaled round_half_even_of_int unscaled
    using small by simp
qed

lemma round_double_exact:
  assumes "\<bar>n\<bar> < 2 ^ 53"
  shows "round_double (of_int n) = Num (of_int n)"
proof -
  consider "n = 0" | "0 < n" | "n < 0"
    by linarith
  then show ?thesis
  proof cases
    case 1
    then show ?thesis
      by (simp add: round_double_def)
  next
    case 2
    with assms have "n < 2 ^ 53"
      by simp
    from round_pos_exact [OF 2 this] 2 show ?thesis
      by (simp add: round_double_def)
  next
    case 3
    with assms have b: "0 < - n" "- n < 2 ^ 53"
      by simp_all
    from round_pos_exact [OF b] 3 show ?thesis
      by (simp add: round_double_def)
  qed
qed

text \<open>Rounding on given numbers, by computation.\<close>

lemma floor_numeral_div: "\<lfloor>numeral a / numeral b :: rat\<rfloor> = numeral a div numeral b"
  using floor_divide_of_int_eq [of "numeral a" "numeral b", where ?'a = rat] by simp

lemmas round_double_eval =
  round_double_def round_pos_def round_half_even_def binary_exponent_def pow2_def
  log2floor.simps Let_def floor_numeral_div

lemma round_double_examples:
  "round_double 60 = Num 60"
  "round_double (3 / 2) = Num (3 / 2)"
  "round_double 9007199254740993 = Num 9007199254740992"
  "round_double 9007199254740995 = Num 9007199254740996"
  "round_double (- 9007199254740993) = Num (- 9007199254740992)"
  "round_double 210000000000000090 = Num 210000000000000096"
  "round_double (1 / 3) = Num (6004799503160661 / 2 ^ 54)"
  by (simp_all add: round_double_eval)


section \<open>\<open>parseInt\<close> reads back the decimal numeral of an integer\<close>

lemma isDigit_digit_char: "d < 10 \<Longrightarrow> isDigit (digit_char d)"
  by (simp add: isDigit_def digit_char_def)

lemma digit_value_digit_char: "d < 10 \<Longrightarrow> digit_value (digit_char d) = d"
  by (simp add: digit_value_def digit_char_def)

lemma digits_of_isDigit: "c \<in> set (digits_of n) \<Longrightarrow> isDigit c"
proof (induction n arbitrary: c rule: digits_of.induct)
  case (1 n)
  show ?case
  proof (cases "n < 10")
    case True
    with "1.prems" show ?thesis
      by (simp add: digits_of.simps [of n] isDigit_digit_char)
  next
    case False
    with "1.prems" "1.IH" show ?thesis
      by (auto simp: digits_of.simps [of n] isDigit_digit_char)
  qed
qed

lemma digits_of_nonempty: "digits_of n \<noteq> []"
  by (subst digits_of.simps) simp

lemma digits_value_snoc: "digits_value (Z @ [c]) = 10 * digits_value Z + digit_value c"
  by (simp add: digits_value_def)

lemma digits_value_digits_of: "digits_value (digits_of n) = n"
proof (induction n rule: digits_of.induct)
  case (1 n)
  show ?case
  proof (cases "n < 10")
    case True
    then show ?thesis
      by (simp add: digits_of.simps [of n] digits_value_def digit_value_digit_char)
  next
    case False
    with "1.IH" show ?thesis
      by (simp add: digits_of.simps [of n] digits_value_snoc digit_value_digit_char)
  qed
qed

text \<open>A digit is neither white space nor a sign, so nothing is dropped before the digits.\<close>

lemma isDigit_not_special:
  "isDigit c \<Longrightarrow> \<not> StrWhiteSpaceChar c \<and> c \<noteq> CHR ''-'' \<and> c \<noteq> CHR ''+''"
  by (auto simp: isDigit_def StrWhiteSpaceChar_def)

lemma takeWhile_digits_of: "takeWhile isDigit (digits_of n) = digits_of n"
  by (simp add: digits_of_isDigit)

lemma hd_digits_of: "isDigit (hd (digits_of n))"
  using digits_of_nonempty [of n] digits_of_isDigit [of "hd (digits_of n)" n] by simp

lemma parseInt10_digits_of: "parseInt10 (digits_of n) = round_double (of_int (int n))"
proof -
  obtain c cs where ds: "digits_of n = c # cs"
    using digits_of_nonempty [of n] by (cases "digits_of n") auto
  have c: "isDigit c"
    using hd_digits_of [of n] ds by simp
  have drop: "dropWhile StrWhiteSpaceChar (digits_of n) = digits_of n"
    using isDigit_not_special [OF c] ds by simp
  have nosign: "hd (digits_of n) \<noteq> CHR ''-'' \<and> hd (digits_of n) \<noteq> CHR ''+''"
    using isDigit_not_special [OF c] ds by simp
  show ?thesis
    unfolding parseInt10_def Let_def drop
    using nosign
    by (simp add: takeWhile_digits_of digits_of_nonempty digits_value_digits_of)
qed

lemma parseInt10_minus_digits_of:
  "parseInt10 (CHR ''-'' # digits_of n) = round_double (of_int (- int n))"
proof -
  have ws: "\<not> StrWhiteSpaceChar CHR ''-''"
    by (simp add: StrWhiteSpaceChar_def)
  from ws show ?thesis
    unfolding parseInt10_def
    by (simp add: Let_def takeWhile_digits_of digits_of_nonempty digits_value_digits_of)
qed

lemma parseInt10_IntValue: "parseInt10 (IntValue n) = round_double (of_int n)"
  by (simp add: IntValue_def parseInt10_digits_of parseInt10_minus_digits_of)

text \<open>
  \<open>parseInt\<close> on other strings: a prefix is enough, no digit is \<open>NaN\<close>, white space before
  the number is dropped, and a numeral beyond \<open>2 ^ 53\<close> is rounded.
\<close>

lemma parseInt10_examples:
  "parseInt10 '' -42abc'' = Num (- 42)"
  "parseInt10 ''+17'' = Num 17"
  "parseInt10 ''1e3'' = Num 1"
  "parseInt10 ''abc'' = NaN"
  "parseInt10 '''' = NaN"
  "parseInt10 (CHR 0xA0 # ''42'') = Num 42"
  "parseInt10 ''9007199254740993'' = Num 9007199254740992"
  by (simp_all add: parseInt10_def isDigit_def StrWhiteSpaceChar_def digits_value_def
      digit_value_def round_double_eval)


section \<open>The \<open>upvoted\<close> and \<open>hidden\<close> flags\<close>

text \<open>
  C3. For every news item, every comment and every request context, the resolved
  \<open>upvoted\<close> field is the membership test of \<open>context.userId\<close> in the item's \<open>upvotes\<close>, and
  the resolved \<open>hidden\<close> field of a news item is the membership test of \<open>context.userId\<close> in
  its \<open>hides\<close>. Membership is that of \<open>includes\<close>: some element is the same value as the user
  id; for a user id that is not a \<open>Date\<close> object this is membership in the set of elements.
\<close>

theorem upvoted_hidden_membership:
  "Comment_upvoted comment ctx
     = (\<exists>v\<in>set (CommentModel.upvotes comment). SameValueZero v (userId ctx))
   \<and> NewsItem_upvoted newsItem ctx
     = (\<exists>v\<in>set (NewsItemModel.upvotes newsItem). SameValueZero v (userId ctx))
   \<and> NewsItem_hidden newsItem ctx
     = (\<exists>v\<in>set (hides newsItem). SameValueZero v (userId ctx))
   \<and> (\<not> isDate (userId ctx) \<longrightarrow>
        Comment_upvoted comment ctx = (userId ctx \<in> set (CommentModel.upvotes comment))
      \<and> NewsItem_upvoted newsItem ctx = (userId ctx \<in> set (NewsItemModel.upvotes newsItem))
      \<and> NewsItem_hidden newsItem ctx = (userId ctx \<in> set (hides newsItem)))"
  by (simp add: Comment_upvoted_def NewsItem_upvoted_def NewsItem_hidden_def
      includes_member) (simp add: includes_SameValueZero)

theorem upvoted_hidden_membership_witness:
  "\<not> isDate (userId alice)
   \<and> \<not> Comment_upvoted reply alice \<and> userId alice \<notin> set (CommentModel.upvotes reply)
   \<and> NewsItem_upvoted story alice \<and> userId alice \<in> set (NewsItemModel.upvotes story)
   \<and> \<not> NewsItem_hidden story alice \<and> userId alice \<notin> set (hides story)"
  using upvoted_hidden_membership [of reply alice story]
  by (simp add: alice_def reply_def story_def)

text \<open>
  C10. When nobody is logged in (\<open>context.userId\<close> is \<open>undefined\<close> or \<open>null\<close>) and the
  \<open>upvotes\<close> and \<open>hides\<close> lists hold only strings, \<open>upvoted\<close> and \<open>hidden\<close> resolve to false.
\<close>

theorem not_logged_in_flags_false:
  assumes "userId ctx = Undefined \<or> userId ctx = Null"
    and "\<forall>v\<in>set (CommentModel.upvotes comment). isString v"
    and "\<forall>v\<in>set (NewsItemModel.upvotes newsItem). isString v"
    and "\<forall>v\<in>set (hides newsItem). isString v"
  shows "\<not> Comment_upvoted comment ctx \<and> \<not> NewsItem_upvoted newsItem ctx
         \<and> \<not> NewsItem_hidden newsItem ctx"
  using assms
  by (simp add: Comment_upvoted_def NewsItem_upvoted_def NewsItem_hidden_def
      includes_strings_nullish)

theorem not_logged_in_flags_false_witness:
  "userId anonymous = Undefined
   \<and> list_all isString (CommentModel.upvotes reply)
   \<and> list_all isString (NewsItemModel.upvotes story)
   \<and> list_all isString (hides story)
   \<and> \<not> Comment_upvoted reply anonymous \<and> \<not> NewsItem_upvoted story anonymous
   \<and> \<not> NewsItem_hidden story anonymous"
proof -
  have h1: "userId anonymous = Undefined \<or> userId anonymous = Null"
    by (simp add: anonymous_def)
  have h2: "\<forall>v\<in>set (CommentModel.upvotes reply). isString v"
    by (simp add: reply_def)
  have h3: "\<forall>v\<in>set (NewsItemModel.upvotes story). isString v"
    by (simp add: story_def)
  have h4: "\<forall>v\<in>set (hides story). isString v"
    by (simp add: story_def)
  have u: "userId anonymous = Undefined"
    by (simp add: anonymous_def)
  from not_logged_in_flags_false [OF h1 h2 h3 h4] u h2 h3 h4 show ?thesis
    by (simp add: list_all_iff)
qed

text \<open>
  The restriction to strings is needed: the schema's \<open>[String]!\<close> admits \<open>null\<close> elements, and
  a \<open>null\<close> user id is found in a list that holds \<open>null\<close>.
\<close>

lemma Array_includes_null: "Array_includes [Str ''bob'', Null] Null"
  by simp


section \<open>The feed query\<close>

text \<open>
  The resolver forwards \<open>type\<close> and \<open>skip\<close> as they are, and the limit it computes from
  \<open>first\<close>. For a \<open>first\<close> that is an integer or \<open>null\<close>, the values the schema's \<open>Int\<close> admits
  for an argument that is given, the limit is \<open>first\<close> when \<open>0 < first \<le> 30\<close> and \<open>30\<close>
  otherwise.
\<close>

lemma Query_feed_forwards:
  "Query_feed s2n args ctx w
     = invoke ctx
         (FeedSingleton_getForType (get args ''type'')
            (feed_limit s2n (get args ''first'')) (get args ''skip'')) w"
  by (simp add: Query_feed_def)

lemma feed_limit_clamps:
  "feed_limit s2n (Number (Num (of_int n)))
     = (if 0 < n \<and> n \<le> 30 then Number (Num (of_int n)) else Number (Num 30))"
  "feed_limit s2n Null = Number (Num 30)"
  by (auto simp: feed_limit_def js_lt_def js_gt_def)

text \<open>
  An absent \<open>first\<close> is \<open>undefined\<close>. It converts to \<open>NaN\<close>, both comparisons are false, and
  the limit is \<open>undefined\<close> itself.
\<close>

lemma feed_limit_undefined: "feed_limit s2n Undefined = Undefined"
  by (simp add: feed_limit_def js_lt_def js_gt_def)

text \<open>
  C1. The limit passed to \<open>FeedSingleton.getForType\<close> is in the range (0,30]: \<open>first\<close> when
  \<open>0 < first \<le> 30\<close> and \<open>30\<close> otherwise, also when \<open>first\<close> is absent; \<open>skip\<close> is forwarded
  unchanged. The code differs where \<open>first\<close> is absent: the query \<open>feed(type: top)\<close> calls
  \<open>getForType\<close> with the limit \<open>undefined\<close>, not \<open>30\<close>.
\<close>

theorem feed_first_absent_limit_undefined:
  "Query_feed s2n [(''type'', Str ''top'')] anonymous world0
     = (Inr (Obj 7),
        \<lparr>calls = [FeedSingleton_getForType (Str ''top'') Undefined Undefined],
         debug_log = [], store = 1\<rparr>)"
  by (simp add: Query_feed_def feed_limit_def js_lt_def js_gt_def get_def invoke_def
      anonymous_def world0_def counting_service_def)


section \<open>Mutations and the logged-in user\<close>

text \<open>
  C2. Each mutation tests \<open>!context.userId\<close>, so a user id is set when it is truthy and not
  set when it is falsy, as \<open>undefined\<close> and \<open>null\<close> are. When the user id is not set the
  resolver throws an error whose message begins \<open>Must be logged in\<close>; when it is set the
  resolver throws nothing of its own and its outcome is that of the corresponding service
  method, called with the arguments and the user id.
\<close>

theorem mutations_need_truthy_userId:
  "(userId ctx = Undefined \<or> userId ctx = Null \<longrightarrow> \<not> truthy (userId ctx))
   \<and> (\<not> truthy (userId ctx) \<longrightarrow>
        (\<exists>msg. fst (Mutation m args ctx w) = Inl (Error msg)
               \<and> prefix ''Must be logged in'' msg))
   \<and> (truthy (userId ctx) \<longrightarrow>
        Mutation upvoteNewsItem args ctx w
          = invoke ctx (NewsItemService_upvoteNewsItem (get args ''id'') (userId ctx)) w
      \<and> Mutation hideNewsItem args ctx w
          = invoke ctx (NewsItemService_hideNewsItem (get args ''id'') (userId ctx)) w
      \<and> Mutation submitNewsItem args ctx w
          = invoke ctx (NewsItemService_submitNewsItem
                          (AList.update ''submitterId'' (userId ctx) args)) w)"
  by (cases m)
    (auto simp: Mutation_upvoteNewsItem_def Mutation_hideNewsItem_def
      Mutation_submitNewsItem_def)

theorem mutations_need_truthy_userId_witness:
  "\<not> truthy (userId anonymous)
   \<and> fst (Mutation hideNewsItem [(''id'', Number (Num 1))] anonymous world0)
       = Inl (Error ''Must be logged in to hide post.'')
   \<and> truthy (userId alice)
   \<and> Mutation hideNewsItem [(''id'', Number (Num 1))] alice world0
       = (Inr (Obj 7),
          \<lparr>calls = [NewsItemService_hideNewsItem (Number (Num 1)) (Str ''alice'')],
           debug_log = [], store = 1\<rparr>)"
  using mutations_need_truthy_userId
      [where ctx = alice and m = hideNewsItem and args = "[(''id'', Number (Num 1))]"
         and w = world0]
    mutations_need_truthy_userId
      [where ctx = anonymous and m = hideNewsItem and args = "[(''id'', Number (Num 1))]"
         and w = world0]
  by (simp add: alice_def anonymous_def Mutation_hideNewsItem_def invoke_def get_def
      world0_def counting_service_def)

text \<open>
  C9. When a mutation is refused for want of a logged-in user, the error is thrown before
  any service method is invoked: the outcome is an error, no call is recorded and the
  store is as it was.
\<close>

theorem unauthenticated_mutation_no_service_call:
  assumes "\<not> truthy (userId ctx)"
  shows "isl (fst (Mutation m args ctx w)) \<and> snd (Mutation m args ctx w) = w"
  using assms
  by (cases m)
    (simp_all add: Mutation_upvoteNewsItem_def Mutation_hideNewsItem_def
      Mutation_submitNewsItem_def)

theorem unauthenticated_mutation_no_service_call_witness:
  "\<not> truthy (userId anonymous)
   \<and> isl (fst (Mutation submitNewsItem [(''title'', Str ''Show HN'')] anonymous world0))
   \<and> snd (Mutation submitNewsItem [(''title'', Str ''Show HN'')] anonymous world0)
       = \<lparr>calls = [], debug_log = [], store = 0\<rparr>"
proof -
  have h: "\<not> truthy (userId anonymous)"
    by (simp add: anonymous_def)
  from unauthenticated_mutation_no_service_call [OF h, of submitNewsItem _ world0] h
  show ?thesis
    by (simp add: world0_def)
qed

text \<open>
  C8. For an authenticated \<open>submitNewsItem\<close>, the object passed to
  \<open>NewsItemService.submitNewsItem\<close> has \<open>submitterId\<close> equal to \<open>context.userId\<close> whatever the
  arguments hold, and \<open>title\<close>, \<open>url\<close>, \<open>text\<close> (every other property) as the arguments have
  them.
\<close>

theorem submitNewsItem_submitter_is_userId:
  assumes "truthy (userId ctx)"
  shows "\<exists>item.
           calls (snd (Mutation_submitNewsItem newsItem ctx w))
             = calls w @ [NewsItemService_submitNewsItem item]
         \<and> get item ''submitterId'' = userId ctx
         \<and> get item ''title'' = get newsItem ''title''
         \<and> get item ''url'' = get newsItem ''url''
         \<and> get item ''text'' = get newsItem ''text''
         \<and> (\<forall>k. k \<noteq> ''submitterId'' \<longrightarrow> map_of item k = map_of newsItem k)"
  using assms
  by (simp add: Mutation_submitNewsItem_def calls_invoke get_def update_conv')

theorem submitNewsItem_submitter_is_userId_witness:
  "truthy (userId alice)
   \<and> calls (snd (Mutation_submitNewsItem
                   [(''title'', Str ''Show HN''), (''submitterId'', Str ''mallory''),
                    (''url'', Str ''http://x.test'')] alice world0))
       = [NewsItemService_submitNewsItem
            [(''title'', Str ''Show HN''), (''submitterId'', Str ''alice''),
             (''url'', Str ''http://x.test'')]]"
proof -
  have h: "truthy (userId alice)"
    by (simp add: alice_def)
  from submitNewsItem_submitter_is_userId [OF h] h show ?thesis
    by (simp add: Mutation_submitNewsItem_def invoke_def alice_def world0_def
        counting_service_def)
qed


section \<open>The \<open>me\<close> query\<close>

text \<open>
  C6. \<open>me\<close> tests \<open>context.userId\<close> once. When the user id is set (truthy) the result is
  \<open>UserService.getUser(context.userId)\<close>. When it is not set (falsy) the result is a falsy
  value that is not an object, so not a user, and no service is called; for the user id
  \<open>undefined\<close> or \<open>null\<close> of a request with nobody logged in, the result is \<open>undefined\<close> or
  \<open>null\<close>.
\<close>

theorem me_truthy_check:
  "(truthy (userId ctx) \<longrightarrow>
        Query_me ctx w
          = invoke ctx (UserService_getUser (userId ctx))
              (logger [Str ''Me: userId:'', userId ctx] w)
      \<and> calls (snd (Query_me ctx w)) = calls w @ [UserService_getUser (userId ctx)])
   \<and> (\<not> truthy (userId ctx) \<longrightarrow>
        (\<exists>v. fst (Query_me ctx w) = Inr v \<and> \<not> truthy v
             \<and> (\<forall>r t. v \<noteq> Obj r \<and> v \<noteq> DateObj r t))
      \<and> calls (snd (Query_me ctx w)) = calls w
      \<and> store (snd (Query_me ctx w)) = store w)
   \<and> (userId ctx = Undefined \<or> userId ctx = Null \<longrightarrow>
        (fst (Query_me ctx w) = Inr Undefined \<or> fst (Query_me ctx w) = Inr Null)
      \<and> calls (snd (Query_me ctx w)) = calls w)"
  by (auto simp: Query_me_def Let_def logger_def calls_invoke dest: falsy_not_object)

theorem me_truthy_check_witness:
  "truthy (userId alice)
   \<and> Query_me alice world0
       = (Inr (Obj 7),
          \<lparr>calls = [UserService_getUser (Str ''alice'')],
           debug_log = [[Str ''Me: userId:'', Str ''alice'']], store = 1\<rparr>)
   \<and> \<not> truthy (userId anonymous)
   \<and> userId anonymous = Undefined
   \<and> fst (Query_me anonymous world0) = Inr Undefined
   \<and> calls (snd (Query_me anonymous world0)) = []
   \<and> store (snd (Query_me anonymous world0)) = 0"
  using me_truthy_check [where ctx = alice and w = world0]
    me_truthy_check [where ctx = anonymous and w = world0]
  by (auto simp: Query_me_def alice_def anonymous_def invoke_def logger_def world0_def
      counting_service_def)


section \<open>The \<open>Date\<close> scalar coerces to numbers\<close>

lemma Date_serialize_other: "\<not> isDate v \<Longrightarrow> Date_serialize v = v"
  by (cases v) simp_all

text \<open>
  C7. \<open>serialize\<close> returns the time value of a \<open>Date\<close> and any other value as it is;
  \<open>parseLiteral\<close> returns, for a literal of kind \<open>INT\<close>, the result of \<open>parseInt\<close> in base 10 on
  its text, and \<open>null\<close> for a literal of every other kind. For the numeral of an integer
  below \<open>2 ^ 53\<close> in magnitude, which every millisecond timestamp is, the result of
  \<open>parseInt\<close> is that integer.
\<close>

theorem Date_scalar_coercion:
  "Date_serialize (DateObj r t) = Number t
   \<and> (\<not> isDate v \<longrightarrow> Date_serialize v = v)
   \<and> Date_parseLiteral \<lparr>kind = Kind_INT, ast_value = s\<rparr> = Number (parseInt10 s)
   \<and> (\<bar>n\<bar> < 2 ^ 53 \<longrightarrow>
        Date_parseLiteral \<lparr>kind = Kind_INT, ast_value = IntValue n\<rparr>
          = Number (Num (of_int n)))
   \<and> (k \<noteq> Kind_INT \<longrightarrow> Date_parseLiteral \<lparr>kind = k, ast_value = s\<rparr> = Null)"
  by (simp add: Date_serialize_other Date_parseLiteral_def parseInt10_IntValue
      round_double_exact)

theorem Date_scalar_coercion_witness:
  "Date_serialize (DateObj 3 (Num 1500000000000)) = Number (Num 1500000000000)
   \<and> \<not> isDate (Number (Num 5)) \<and> Date_serialize (Number (Num 5)) = Number (Num 5)
   \<and> \<bar>1500000000000 :: int\<bar> < 2 ^ 53
   \<and> Date_parseLiteral \<lparr>kind = Kind_INT, ast_value = ''1500000000000''\<rparr>
       = Number (Num 1500000000000)
   \<and> Kind_STRING \<noteq> Kind_INT
   \<and> Date_parseLiteral \<lparr>kind = Kind_STRING, ast_value = ''1500000000000''\<rparr> = Null"
proof -
  have s: "IntValue 1500000000000 = ''1500000000000''"
    by (simp add: IntValue_def digits_of.simps digit_char_def char_of_def bit_0)
  have b: "\<bar>1500000000000 :: int\<bar> < 2 ^ 53"
    by simp
  from Date_scalar_coercion
    [where r = 3 and t = "Num 1500000000000" and v = "Number (Num 5)"
       and n = 1500000000000 and k = Kind_STRING and s = "''1500000000000''"]
    b
  show ?thesis
    unfolding s by auto
qed

text \<open>
  Beyond \<open>2 ^ 53\<close> the result is the nearest double: the literal \<open>9007199254740993\<close> is
  parsed to \<open>9007199254740992\<close>.
\<close>

lemma Date_parseLiteral_rounds:
  "Date_parseLiteral \<lparr>kind = Kind_INT, ast_value = IntValue n\<rparr>
     = Number (round_double (of_int n))"
  "Date_parseLiteral \<lparr>kind = Kind_INT, ast_value = ''9007199254740993''\<rparr>
     = Number (Num 9007199254740992)"
  by (simp_all add: Date_parseLiteral_def parseInt10_IntValue parseInt10_examples)


section \<open>The ShowNew page\<close>

text \<open>
  C4. The feed type the page sends should be one of the six values of \<open>FeedType\<close>. The page
  sends \<open>SHOW\<close> for every URL, and \<open>SHOW\<close> is not a value of the enum, whose names are
  lower-case.
\<close>

theorem ShowNewPage_type_not_in_FeedType:
  "get (ShowNewPage s2n u) ''type'' = Str ''SHOW'' \<and> ''SHOW'' \<notin> set FeedType"
  by (simp add: ShowNewPage_def ShowHNNewsFeed_variables_def get_def FeedType_def)

lemma pageNumber_url_page: "pageNumber s2n u = Number (url_page s2n u)"
  by (auto simp: pageNumber_def url_page_def js_or_def get_def
      split: option.splits)

lemma url_page_not_NaN: "url_page s2n u \<noteq> NaN"
  by (simp add: url_page_def split: option.splits)

lemma ShowNewPage_variables:
  "ShowNewPage s2n u
     = [(''type'', Str ''SHOW''), (''first'', Number (Num 30)),
        (''skip'', Number (num_times (Num 30) (url_page s2n u)))]"
  by (simp add: ShowNewPage_def ShowHNNewsFeed_variables_def ShowNewPage_options_def
      get_def POSTS_PER_PAGE_def js_times_def pageNumber_url_page)

text \<open>
  C5. With \<open>p\<close> the page number the URL carries (\<open>0\<close> when the parameter is absent or not a
  number, so never \<open>NaN\<close>), the page asks for the feed with \<open>first = 30\<close> and
  \<open>skip = 30 * p\<close>, the product of the two numbers as the code computes it. For an
  integer \<open>p\<close> with \<open>30 * p\<close> below \<open>2 ^ 53\<close> in magnitude it is the integer \<open>30 * p\<close>.
\<close>

theorem ShowNewPage_first_skip:
  "get (ShowNewPage s2n u) ''first'' = Number (Num 30)
   \<and> get (ShowNewPage s2n u) ''skip'' = Number (num_times (Num 30) (url_page s2n u))
   \<and> url_page s2n u \<noteq> NaN
   \<and> (url_page s2n u = Num (of_int p) \<and> \<bar>30 * p\<bar> < 2 ^ 53 \<longrightarrow>
        get (ShowNewPage s2n u) ''skip'' = Number (Num (of_int (30 * p))))"
proof -
  have exact: "num_times (Num 30) (Num (of_int p)) = Num (of_int (30 * p))"
    if "\<bar>30 * p\<bar> < 2 ^ 53"
  proof -
    have "num_times (Num 30) (Num (of_int p)) = round_double (of_int (30 * p))"
      by simp
    with round_double_exact [OF that] show ?thesis
      by simp
  qed
  show ?thesis
    using exact by (auto simp: ShowNewPage_variables get_def url_page_not_NaN)
qed

theorem ShowNewPage_first_skip_witness:
  "url_page StringToNumber_sample page2 = Num 2
   \<and> \<bar>30 * 2 :: int\<bar> < 2 ^ 53
   \<and> get (ShowNewPage StringToNumber_sample page2) ''first'' = Number (Num 30)
   \<and> get (ShowNewPage StringToNumber_sample page2) ''skip'' = Number (Num 60)"
proof -
  have p: "url_page StringToNumber_sample page2 = Num (of_int 2)"
    by (simp add: url_page_def page2_def StringToNumber_sample_def)
  have b: "\<bar>30 * 2 :: int\<bar> < 2 ^ 53"
    by simp
  from ShowNewPage_first_skip [where s2n = StringToNumber_sample and u = page2 and p = 2]
    p b
  show ?thesis
    by (simp add: round_double_examples)
qed

text \<open>
  The defaults: without a query, without the parameter, and with a parameter that is not
  a number, the page number is \<open>0\<close> and so is \<open>skip\<close>.
\<close>

lemma url_page_defaults:
  "url_page s2n \<lparr>pathname = path, query = None\<rparr> = Num 0"
  "url_page s2n \<lparr>pathname = path, query = Some []\<rparr> = Num 0"
  "s2n x = NaN \<Longrightarrow> url_page s2n \<lparr>pathname = path, query = Some [(''p'', Str x)]\<rparr> = Num 0"
  by (simp_all add: url_page_def)

lemma skip_of_page_0: "num_times (Num 30) (Num 0) = Num 0"
  by (simp add: round_double_def)

text \<open>
  Page numbers that are not small integers, for any conversion that reads them as the
  runtime does: a fraction, an infinity, and an integer whose product with 30 is not a
  double and is rounded.
\<close>

lemma ShowNewPage_other_pages:
  "s2n ''1.5'' = Num (3 / 2)
   \<Longrightarrow> get (ShowNewPage s2n \<lparr>pathname = path, query = Some [(''p'', Str ''1.5'')]\<rparr>) ''skip''
       = Number (Num 45)"
  "s2n ''Infinity'' = PosInf
   \<Longrightarrow> get (ShowNewPage s2n \<lparr>pathname = path, query = Some [(''p'', Str ''Infinity'')]\<rparr>)
         ''skip''
       = Number PosInf"
  "s2n ''7000000000000003'' = Num 7000000000000003
   \<Longrightarrow> get (ShowNewPage s2n
              \<lparr>pathname = path, query = Some [(''p'', Str ''7000000000000003'')]\<rparr>) ''skip''
       = Number (Num 210000000000000096)"
  by (simp_all add: ShowNewPage_variables get_def url_page_def round_double_eval)

end
